theory Spec2Isabelle
  imports Complex_Main "HOL-Library.Log_Nat"
begin

section \<open>Python values used by the notebook\<close>

text \<open>
  The program is the notebook \<^verbatim>\<open>load-ecog-data-w-mne.ipynb\<close>: seven code cells that
  open an NWB file with PyNWB, slice a window out of its \<^verbatim>\<open>ElectricalSeries\<close>, read
  the first epoch and the flagged electrodes, and wrap the window in an MNE
  \<^verbatim>\<open>RawArray\<close>. Exceptions are values of \<open>error + 'a\<close>.
\<close>

datatype error =
  FileNotFoundError | KeyError | IndexError | ValueError | OverflowError
  | RuntimeError | NameError | TypeError

text \<open>
  A Python \<^verbatim>\<open>float\<close>: a finite value, an infinity or a NaN. Finite values are kept as
  the real number they denote.
\<close>

datatype pyfloat = Finite real | PosInf | NegInf | NaN

text \<open>
  \<^verbatim>\<open>round(x)\<close> with one argument: the nearest integer, a tie going to the even
  neighbour; \<^verbatim>\<open>round(nan)\<close> raises ValueError and \<^verbatim>\<open>round(inf)\<close> OverflowError.
\<close>

definition round_half_even :: "real \<Rightarrow> int" where
  "round_half_even x =
     (let f = \<lfloor>x\<rfloor>; d = x - of_int f
      in if d < 1 / 2 then f
         else if 1 / 2 < d then f + 1
         else if even f then f else f + 1)"

fun py_round :: "pyfloat \<Rightarrow> error + int" where
  "py_round (Finite x) = Inr (round_half_even x)"
| "py_round NaN = Inl ValueError"
| "py_round PosInf = Inl OverflowError"
| "py_round NegInf = Inl OverflowError"

text \<open>
  A Python number, as \<^verbatim>\<open>start\<close> and \<^verbatim>\<open>num_secs\<close> may be and as the elements of a
  numeric array are: an \<^verbatim>\<open>int\<close> (an element of an integer dtype) or a \<^verbatim>\<open>float\<close>.
\<close>

datatype pynum = PyInt int | PyFloat pyfloat

abbreviation f64 :: "real \<Rightarrow> pynum" where
  "f64 x \<equiv> PyFloat (Finite x)"

text \<open>
  Converting an \<^verbatim>\<open>int\<close> to a \<^verbatim>\<open>float\<close>: the nearest double, a tie going to the even
  mantissa, so an integer of more than 53 bits is rounded at its 53rd bit. Python
  raises OverflowError when the integer is beyond the doubles, that is, when it
  rounds to \<open>2 ^ 1024\<close>.
\<close>

definition float_of_int_ok :: "int \<Rightarrow> bool" where
  "float_of_int_ok i = (\<bar>i\<bar> < 2 ^ 1024 - 2 ^ 970)"

definition float64_of_int :: "int \<Rightarrow> pyfloat" where
  "float64_of_int i =
     (let e = bitlen \<bar>i\<bar> - 53
      in if e \<le> 0 then Finite (of_int i)
         else Finite (of_int (round_half_even (of_int i / 2 ^ nat e)) * 2 ^ nat e))"

text \<open>
  The arithmetic of the slice bounds \<^verbatim>\<open>start * fs\<close> and \<^verbatim>\<open>(start + num_secs) * fs\<close>,
  where \<^verbatim>\<open>fs\<close> is an \<^verbatim>\<open>int\<close>. A sum or product with a \<^verbatim>\<open>float\<close> operand is a
  \<^verbatim>\<open>float\<close>, for which an \<^verbatim>\<open>int\<close> operand is converted first. A slice reads nothing
  of a \<^verbatim>\<open>float\<close> bound but its type (it raises TypeError on it), so the value of a
  \<^verbatim>\<open>float\<close> result is not kept.
\<close>

datatype bound = IntBound int | FloatBound

fun bound_of :: "pynum \<Rightarrow> bound" where
  "bound_of (PyInt i) = IntBound i"
| "bound_of (PyFloat x) = FloatBound"

fun num_add :: "pynum \<Rightarrow> pynum \<Rightarrow> error + bound" where
  "num_add (PyInt a) (PyInt b) = Inr (IntBound (a + b))"
| "num_add (PyInt a) (PyFloat y) = (if float_of_int_ok a then Inr FloatBound else Inl OverflowError)"
| "num_add (PyFloat x) (PyInt b) = (if float_of_int_ok b then Inr FloatBound else Inl OverflowError)"
| "num_add (PyFloat x) (PyFloat y) = Inr FloatBound"

fun bound_mul :: "bound \<Rightarrow> int \<Rightarrow> error + bound" where
  "bound_mul (IntBound i) fs = Inr (IntBound (i * fs))"
| "bound_mul FloatBound fs = (if float_of_int_ok fs then Inr FloatBound else Inl OverflowError)"

text \<open>\<^verbatim>\<open>str(i)\<close> of an integer: its decimal digits, with a minus sign when negative.\<close>

definition digit_char :: "nat \<Rightarrow> char" where
  "digit_char d = ''0123456789'' ! d"

function str_nat :: "nat \<Rightarrow> string" where
  "str_nat n = (if n < 10 then [digit_char n] else str_nat (n div 10) @ [digit_char (n mod 10)])"
  by pat_completeness auto
termination
  by (relation "measure (\<lambda>n. n)") auto

declare str_nat.simps [simp del]

definition str :: "int \<Rightarrow> string" where
  "str i = (if i < 0 then CHR ''-'' # str_nat (nat (- i)) else str_nat (nat i))"

text \<open>
  Reading a decimal string back (the inverse of \<open>str\<close> on its image): \<open>None\<close> on an
  empty string or on a character that is not a digit.
\<close>

definition digit_val :: "char \<Rightarrow> nat option" where
  "digit_val c = (if c \<in> set ''0123456789'' then Some (of_char c - 48) else None)"

fun read_nat :: "nat \<Rightarrow> string \<Rightarrow> nat option" where
  "read_nat acc [] = Some acc"
| "read_nat acc (c # cs) =
     (case digit_val c of None \<Rightarrow> None | Some d \<Rightarrow> read_nat (10 * acc + d) cs)"

definition read_int :: "string \<Rightarrow> int option" where
  "read_int s =
     (case s of
        [] \<Rightarrow> None
      | c # cs \<Rightarrow>
          if c = CHR ''-'' then (if cs = [] then None else map_option (\<lambda>n. - int n) (read_nat 0 cs))
          else map_option int (read_nat 0 s))"

text \<open>
  A decimal numeral as Python writes a non-negative integer: digits only, at least
  one, and no leading zero except in \<open>''0''\<close> itself.
\<close>

definition is_digit :: "char \<Rightarrow> bool" where
  "is_digit c = (c \<in> set ''0123456789'')"

definition decimal_numeral :: "string \<Rightarrow> bool" where
  "decimal_numeral s = (s \<noteq> [] \<and> list_all is_digit s \<and> (hd s \<noteq> CHR ''0'' \<or> s = ''0''))"

text \<open>
  \<^verbatim>\<open>xs[i]\<close>: a negative index counts from the end, an index out of range raises
  IndexError.
\<close>

definition getitem :: "'a list \<Rightarrow> int \<Rightarrow> error + 'a" where
  "getitem xs i =
     (if 0 \<le> i \<and> i < int (length xs) then Inr (xs ! nat i)
      else if i < 0 \<and> - int (length xs) \<le> i then Inr (xs ! nat (int (length xs) + i))
      else Inl IndexError)"

text \<open>
  \<^verbatim>\<open>xs[lo:hi]\<close> with step 1, as \<^verbatim>\<open>slice.indices\<close> computes it (h5py and NumPy both
  use it): a negative bound counts from the end, every bound is clamped to
  \<open>[0, len]\<close>, and a stop before the start selects nothing. \<open>None\<close> is an omitted
  bound.
\<close>

definition clamp_index :: "nat \<Rightarrow> int \<Rightarrow> nat" where
  "clamp_index n i = (if i < 0 then nat (max (i + int n) 0) else min (nat i) n)"

definition slice_list :: "'a list \<Rightarrow> int option \<Rightarrow> int option \<Rightarrow> 'a list" where
  "slice_list xs lo hi =
     (let n = length xs;
          a = (case lo of None \<Rightarrow> 0 | Some i \<Rightarrow> clamp_index n i);
          b = (case hi of None \<Rightarrow> n | Some j \<Rightarrow> clamp_index n j)
      in take (b - a) (drop a xs))"

text \<open>\<^verbatim>\<open>enumerate(xs)\<close>: each element paired with its position, from 0.\<close>

definition enumerate_py :: "'a list \<Rightarrow> (int \<times> 'a) list" where
  "enumerate_py xs = zip (map int [0..<length xs]) xs"

section \<open>Two-dimensional arrays\<close>

text \<open>
  A 2-D array (an h5py dataset or a NumPy array) is its list of rows together with
  the length of the second axis, which an array without rows still has. The
  shape is \<open>(number of rows, ncols)\<close>.
\<close>

record 'a ndarray =
  ncols :: nat
  rows :: "'a list list"

definition wf_ndarray :: "'a ndarray \<Rightarrow> bool" where
  "wf_ndarray a = list_all (\<lambda>r. length r = ncols a) (rows a)"

definition shape :: "'a ndarray \<Rightarrow> nat \<times> nat" where
  "shape a = (length (rows a), ncols a)"


text \<open>\<^verbatim>\<open>a[lo:hi, :]\<close>: a slice of the first axis, the whole second axis.\<close>

definition getitem_rows :: "'a ndarray \<Rightarrow> int \<Rightarrow> int \<Rightarrow> 'a ndarray" where
  "getitem_rows a lo hi =
     \<lparr>ncols = length (slice_list [0..<ncols a] None None),
      rows = map (\<lambda>r. slice_list r None None) (slice_list (rows a) (Some lo) (Some hi))\<rparr>"

text \<open>The same with the bounds as the program computes them: a \<^verbatim>\<open>float\<close> bound raises
  TypeError.\<close>

fun getitem_rows_bounds :: "'a ndarray \<Rightarrow> bound \<Rightarrow> bound \<Rightarrow> error + 'a ndarray" where
  "getitem_rows_bounds a (IntBound lo) (IntBound hi) = Inr (getitem_rows a lo hi)"
| "getitem_rows_bounds a lo hi = Inl TypeError"

text \<open>\<^verbatim>\<open>np.asanyarray(a, dtype=np.float64)\<close>: every element converted to a double. A
  double stays as it is; an integer becomes the nearest double (an integer dtype has
  at most 64 bits, so none of its values is beyond the doubles).\<close>

fun to_float64 :: "pynum \<Rightarrow> pynum" where
  "to_float64 (PyInt i) = PyFloat (float64_of_int i)"
| "to_float64 (PyFloat x) = PyFloat x"

definition astype_float64 :: "pynum ndarray \<Rightarrow> pynum ndarray" where
  "astype_float64 a = \<lparr>ncols = ncols a, rows = map (map to_float64) (rows a)\<rparr>"

text \<open>\<^verbatim>\<open>a.T\<close>: the axes exchanged.\<close>

definition transpose_T :: "'a ndarray \<Rightarrow> 'a ndarray" where
  "transpose_T a =
     \<lparr>ncols = length (rows a),
      rows = map (\<lambda>c. map (\<lambda>r. r ! c) (rows a)) [0..<ncols a]\<rparr>"

section \<open>The container and the four stages\<close>

text \<open>
  What the notebook reads of the \<^verbatim>\<open>NWBFile\<close>: the \<^verbatim>\<open>acquisition\<close> dictionary of
  time series (a sampling rate and a samples-by-channels array each), the columns
  \<^verbatim>\<open>start_time\<close> and \<^verbatim>\<open>stop_time\<close> of the epoch table, and the boolean column
  \<^verbatim>\<open>bad\<close> of the electrode table.
\<close>

record electrical_series =
  rate :: pyfloat
  data :: "pynum ndarray"

record time_intervals =
  start_time :: "pyfloat list"
  stop_time :: "pyfloat list"

record electrodes_table =
  bad :: "bool list"

record nwbfile =
  acquisition :: "string \<rightharpoonup> electrical_series"
  epochs :: time_intervals
  electrodes :: electrodes_table

definition table_rows :: "time_intervals \<Rightarrow> (pyfloat \<times> pyfloat) list" where
  "table_rows t = zip (start_time t) (stop_time t)"

definition lookup :: "('k \<rightharpoonup> 'v) \<Rightarrow> 'k \<Rightarrow> error + 'v" where
  "lookup m k = (case m k of None \<Rightarrow> Inl KeyError | Some v \<Rightarrow> Inr v)"

definition bind_err :: "error + 'a \<Rightarrow> ('a \<Rightarrow> error + 'b) \<Rightarrow> error + 'b" where
  "bind_err m f = (case m of Inl e \<Rightarrow> Inl e | Inr x \<Rightarrow> f x)"

text \<open>
  Cell 4, the window extractor:
  \<^verbatim>\<open>fs = round(nwb.acquisition["ElectricalSeries"].rate)\<close> and
  \<^verbatim>\<open>signal = nwb.acquisition["ElectricalSeries"].data[start * fs:(start + num_secs) * fs, :]\<close>.
\<close>

definition sampling_frequency :: "nwbfile \<Rightarrow> error + int" where
  "sampling_frequency nwb =
     bind_err (lookup (acquisition nwb) ''ElectricalSeries'') (\<lambda>es. py_round (rate es))"

definition window :: "nwbfile \<Rightarrow> int \<Rightarrow> pynum \<Rightarrow> pynum \<Rightarrow> error + pynum ndarray" where
  "window nwb fs start num_secs =
     bind_err (lookup (acquisition nwb) ''ElectricalSeries'')
       (\<lambda>es. bind_err (bound_mul (bound_of start) fs)
          (\<lambda>lo. bind_err (num_add start num_secs)
             (\<lambda>total. bind_err (bound_mul total fs)
                (\<lambda>hi. getitem_rows_bounds (data es) lo hi))))"

definition extract_window :: "nwbfile \<Rightarrow> pynum \<Rightarrow> pynum \<Rightarrow> error + pynum ndarray" where
  "extract_window nwb start num_secs =
     bind_err (sampling_frequency nwb) (\<lambda>fs. window nwb fs start num_secs)"

text \<open>
  Cell 5: \<^verbatim>\<open>start_break = nwb.epochs["start_time"][0]\<close>, then
  \<^verbatim>\<open>stop_break = nwb.epochs["stop_time"][0]\<close>.
\<close>

definition read_baseline :: "nwbfile \<Rightarrow> error + pyfloat \<times> pyfloat" where
  "read_baseline nwb =
     bind_err (getitem (start_time (epochs nwb)) 0)
       (\<lambda>start_break. bind_err (getitem (stop_time (epochs nwb)) 0)
          (\<lambda>stop_break. Inr (start_break, stop_break)))"

text \<open>
  Cell 6:
  \<^verbatim>\<open>bads = [str(i) for i, bad in enumerate(nwb.electrodes["bad"][:]) if bad]\<close>.
\<close>

definition read_invalid_channels :: "nwbfile \<Rightarrow> string list" where
  "read_invalid_channels nwb =
     [str i. (i, b) \<leftarrow> enumerate_py (slice_list (bad (electrodes nwb)) None None), b]"

text \<open>
  Cell 7. \<^verbatim>\<open>mne.create_info(n_channels, fs, ch_types="ecog")\<close> names the channels
  \<^verbatim>\<open>"0"\<close> to \<^verbatim>\<open>str(n_channels - 1)\<close>, stores \<^verbatim>\<open>float(fs)\<close> and rejects a sampling
  frequency that is not positive; \<^verbatim>\<open>info["bads"] = bads\<close> stores the list;
  \<^verbatim>\<open>mne.io.RawArray(signal.T, info)\<close> converts the array given to it to float64 and
  keeps the result, after checking that it has one row per channel name and that
  every bad channel is a channel name.
\<close>

record info =
  ch_names :: "string list"
  ch_types :: "string list"
  sfreq :: pyfloat
  bads :: "string list"

record raw_array =
  raw_data :: "pynum ndarray"
  raw_info :: info

definition create_info :: "nat \<Rightarrow> int \<Rightarrow> string \<Rightarrow> error + info" where
  "create_info n_channels fs ch_type =
     (if \<not> float_of_int_ok fs then Inl OverflowError
      else if fs \<le> 0 then Inl ValueError
      else Inr \<lparr>ch_names = map (\<lambda>i. str (int i)) [0..<n_channels],
                ch_types = replicate n_channels ch_type,
                sfreq = float64_of_int fs, bads = []\<rparr>)"

definition RawArray :: "pynum ndarray \<Rightarrow> info \<Rightarrow> error + raw_array" where
  "RawArray d nfo =
     (let converted = astype_float64 d
      in if fst (shape converted) \<noteq> length (ch_names nfo) then Inl ValueError
         else if \<not> list_all (\<lambda>b. b \<in> set (ch_names nfo)) (bads nfo) then Inl RuntimeError
         else Inr \<lparr>raw_data = converted, raw_info = nfo\<rparr>)"

definition build :: "pynum ndarray \<Rightarrow> nat \<Rightarrow> int \<Rightarrow> string list \<Rightarrow> error + raw_array" where
  "build signal n_channels fs bs =
     bind_err (create_info n_channels fs ''ecog'')
       (\<lambda>nfo. RawArray (transpose_T signal) (nfo\<lparr>bads := bs\<rparr>))"

section \<open>The notebook as a program on the kernel's state\<close>

text \<open>
  The cells run in one Python kernel: what they share is the kernel's global
  variables (\<open>None\<close> is a name not yet bound; reading it raises NameError), the
  files on disk and the HDF5 handles that have been opened and not closed. A
  statement either completes and updates the state or raises and leaves it as it
  was.
\<close>

record kernel =
  files :: "string \<rightharpoonup> nwbfile"
  open_handles :: "string list"
  v_filepath :: "string option"
  v_nwb :: "nwbfile option"
  v_start :: "pynum option"
  v_num_secs :: "pynum option"
  v_fs :: "int option"
  v_signal :: "pynum ndarray option"
  v_n_channels :: "nat option"
  v_start_break :: "pyfloat option"
  v_stop_break :: "pyfloat option"
  v_bads :: "string list option"
  v_info :: "info option"
  v_raw :: "raw_array option"

type_synonym stmt = "kernel \<Rightarrow> error + kernel"

definition var :: "'v option \<Rightarrow> error + 'v" where
  "var v = (case v of None \<Rightarrow> Inl NameError | Some x \<Rightarrow> Inr x)"

text \<open>Cell 2: \<^verbatim>\<open>filepath = "..."\<close> and \<^verbatim>\<open>nwb = pynwb.NWBHDF5IO(filepath, "r").read()\<close>.\<close>

definition s_filepath :: "string \<Rightarrow> stmt" where
  "s_filepath p k = Inr (k\<lparr>v_filepath := Some p\<rparr>)"

definition s_nwb :: "stmt" where
  "s_nwb k =
     bind_err (var (v_filepath k))
       (\<lambda>p. case files k p of
               None \<Rightarrow> Inl FileNotFoundError
             | Some f \<Rightarrow> Inr (k\<lparr>open_handles := p # open_handles k, v_nwb := Some f\<rparr>))"

text \<open>Cell 3: \<^verbatim>\<open>start = 20\<close> and \<^verbatim>\<open>num_secs = 60\<close>.\<close>

definition s_start :: "pynum \<Rightarrow> stmt" where
  "s_start n k = Inr (k\<lparr>v_start := Some n\<rparr>)"

definition s_num_secs :: "pynum \<Rightarrow> stmt" where
  "s_num_secs n k = Inr (k\<lparr>v_num_secs := Some n\<rparr>)"

text \<open>Cell 4, in Python's order of evaluation.\<close>

definition s_fs :: "stmt" where
  "s_fs k =
     bind_err (var (v_nwb k))
       (\<lambda>nwb. bind_err (sampling_frequency nwb) (\<lambda>fs. Inr (k\<lparr>v_fs := Some fs\<rparr>)))"

definition s_signal :: "stmt" where
  "s_signal k =
     bind_err (var (v_nwb k))
       (\<lambda>nwb. bind_err (lookup (acquisition nwb) ''ElectricalSeries'')
          (\<lambda>es. bind_err (var (v_start k))
             (\<lambda>start. bind_err (var (v_fs k))
                (\<lambda>fs. bind_err (bound_mul (bound_of start) fs)
                   (\<lambda>lo. bind_err (var (v_num_secs k))
                      (\<lambda>num_secs. bind_err (num_add start num_secs)
                         (\<lambda>total. bind_err (bound_mul total fs)
                            (\<lambda>hi. bind_err (getitem_rows_bounds (data es) lo hi)
                               (\<lambda>signal. Inr (k\<lparr>v_signal := Some signal\<rparr>))))))))))"

definition s_n_channels :: "stmt" where
  "s_n_channels k =
     bind_err (var (v_signal k)) (\<lambda>signal. Inr (k\<lparr>v_n_channels := Some (snd (shape signal))\<rparr>))"

text \<open>Cell 5.\<close>

definition s_start_break :: "stmt" where
  "s_start_break k =
     bind_err (var (v_nwb k))
       (\<lambda>nwb. bind_err (getitem (start_time (epochs nwb)) 0)
          (\<lambda>x. Inr (k\<lparr>v_start_break := Some x\<rparr>)))"

definition s_stop_break :: "stmt" where
  "s_stop_break k =
     bind_err (var (v_nwb k))
       (\<lambda>nwb. bind_err (getitem (stop_time (epochs nwb)) 0)
          (\<lambda>x. Inr (k\<lparr>v_stop_break := Some x\<rparr>)))"

text \<open>Cell 6.\<close>

definition s_bads :: "stmt" where
  "s_bads k =
     bind_err (var (v_nwb k)) (\<lambda>nwb. Inr (k\<lparr>v_bads := Some (read_invalid_channels nwb)\<rparr>))"

text \<open>
  Cell 7: \<^verbatim>\<open>info = mne.create_info(n_channels, fs, ch_types="ecog", verbose="error")\<close>,
  \<^verbatim>\<open>info["bads"] = bads\<close> and \<^verbatim>\<open>raw = mne.io.RawArray(signal.T, info)\<close>.
\<close>

definition s_info :: "stmt" where
  "s_info k =
     bind_err (var (v_n_channels k))
       (\<lambda>n. bind_err (var (v_fs k))
          (\<lambda>fs. bind_err (create_info n fs ''ecog'') (\<lambda>i. Inr (k\<lparr>v_info := Some i\<rparr>))))"

definition s_info_bads :: "stmt" where
  "s_info_bads k =
     bind_err (var (v_bads k))
       (\<lambda>bs. bind_err (var (v_info k)) (\<lambda>i. Inr (k\<lparr>v_info := Some (i\<lparr>bads := bs\<rparr>)\<rparr>)))"

definition s_raw :: "stmt" where
  "s_raw k =
     bind_err (var (v_signal k))
       (\<lambda>signal. bind_err (var (v_info k))
          (\<lambda>i. bind_err (RawArray (transpose_T signal) i) (\<lambda>r. Inr (k\<lparr>v_raw := Some r\<rparr>))))"

text \<open>
  The notebook, top to bottom, with the three values its cells fix (the path, the
  start offset and the number of seconds) as parameters.
\<close>

definition notebook :: "string \<Rightarrow> pynum \<Rightarrow> pynum \<Rightarrow> stmt list" where
  "notebook filepath start num_secs =
     [s_filepath filepath, s_nwb, s_start start, s_num_secs num_secs,
      s_fs, s_signal, s_n_channels, s_start_break, s_stop_break, s_bads,
      s_info, s_info_bads, s_raw]"

text \<open>
  Running statements in order stops at the first exception; the kernel's state at
  that point stays.
\<close>

fun exec :: "stmt list \<Rightarrow> kernel \<Rightarrow> error option \<times> kernel" where
  "exec [] k = (None, k)"
| "exec (s # ss) k = (case s k of Inl e \<Rightarrow> (Some e, k) | Inr k' \<Rightarrow> exec ss k')"

text \<open>The outputs of a run: the exception that stopped it, or the values it produced.\<close>

record outputs =
  out_signal :: "pynum ndarray"
  out_baseline :: "pyfloat \<times> pyfloat"
  out_bads :: "string list"
  out_raw :: "raw_array"

definition outputs_of :: "kernel \<Rightarrow> outputs option" where
  "outputs_of k =
     (case (v_signal k, v_start_break k, v_stop_break k, v_bads k, v_raw k) of
        (Some s, Some a, Some b, Some bs, Some r) \<Rightarrow>
          Some \<lparr>out_signal = s, out_baseline = (a, b), out_bads = bs, out_raw = r\<rparr>
      | _ \<Rightarrow> None)"

definition run :: "string \<Rightarrow> pynum \<Rightarrow> pynum \<Rightarrow> kernel \<Rightarrow> error + outputs option" where
  "run filepath start num_secs k =
     (case exec (notebook filepath start num_secs) k of
        (Some e, _) \<Rightarrow> Inl e
      | (None, k') \<Rightarrow> Inr (outputs_of k'))"

text \<open>The same pipeline as a function of the files and the three parameters only.\<close>

definition open_file :: "(string \<rightharpoonup> nwbfile) \<Rightarrow> string \<Rightarrow> error + nwbfile" where
  "open_file fsys p = (case fsys p of None \<Rightarrow> Inl FileNotFoundError | Some f \<Rightarrow> Inr f)"

definition pipeline :: "(string \<rightharpoonup> nwbfile) \<Rightarrow> string \<Rightarrow> pynum \<Rightarrow> pynum \<Rightarrow> error + outputs" where
  "pipeline fsys filepath start num_secs =
     bind_err (open_file fsys filepath)
       (\<lambda>nwb. bind_err (sampling_frequency nwb)
          (\<lambda>fs. bind_err (window nwb fs start num_secs)
             (\<lambda>signal. bind_err (read_baseline nwb)
                (\<lambda>baseline. bind_err (build signal (snd (shape signal)) fs (read_invalid_channels nwb))
                   (\<lambda>raw. Inr \<lparr>out_signal = signal, out_baseline = baseline,
                                out_bads = read_invalid_channels nwb, out_raw = raw\<rparr>)))))"

section \<open>Example inputs\<close>

text \<open>
  A small file in the layout of the dataset: two channels sampled at 2 Hz for three
  seconds, the epoch table with two rows, the second electrode flagged.
\<close>

definition example_series :: "electrical_series" where
  "example_series =
     \<lparr>rate = Finite 2,
      data = \<lparr>ncols = 2,
              rows = [[f64 1, f64 2], [f64 3, f64 4], [f64 5, f64 6], [f64 7, f64 8],
                      [f64 9, f64 10], [f64 11, f64 12]]\<rparr>\<rparr>"

definition example_nwb :: "nwbfile" where
  "example_nwb =
     \<lparr>acquisition = [''ElectricalSeries'' \<mapsto> example_series],
      epochs = \<lparr>start_time = [Finite 318, Finite 400], stop_time = [Finite 334, Finite 420]\<rparr>,
      electrodes = \<lparr>bad = [False, True]\<rparr>\<rparr>"

text \<open>The same file with nine electrodes, those at positions 3 and 7 flagged.\<close>

definition flagged_nwb :: "nwbfile" where
  "flagged_nwb =
     example_nwb\<lparr>electrodes :=
       \<lparr>bad = [False, False, False, True, False, False, False, True, False]\<rparr>\<rparr>"

text \<open>The same file with the 256 electrodes of the recording the notebook reads, flagged
  where its output shows them: at 64, 65, 66, 89 and 255.\<close>

definition recorded_nwb :: "nwbfile" where
  "recorded_nwb =
     example_nwb\<lparr>electrodes :=
       \<lparr>bad = replicate 64 False @ [True, True, True] @ replicate 22 False @ [True]
              @ replicate 165 False @ [True]\<rparr>\<rparr>"

text \<open>The same file with no electrode flagged.\<close>

definition clean_nwb :: "nwbfile" where
  "clean_nwb = example_nwb\<lparr>electrodes := \<lparr>bad = [False, False]\<rparr>\<rparr>"

text \<open>The same file with an epoch table that has no row.\<close>

definition no_epochs_nwb :: "nwbfile" where
  "no_epochs_nwb = example_nwb\<lparr>epochs := \<lparr>start_time = [], stop_time = []\<rparr>\<rparr>"


text \<open>One channel sampled at 400.7 Hz, 32080 samples long.\<close>

definition long_series :: "electrical_series" where
  "long_series = \<lparr>rate = Finite (4007 / 10), data = \<lparr>ncols = 1, rows = replicate 32080 [f64 0]\<rparr>\<rparr>"

definition long_nwb :: "nwbfile" where
  "long_nwb = example_nwb\<lparr>acquisition := [''ElectricalSeries'' \<mapsto> long_series]\<rparr>"

text \<open>A kernel just started, with nothing bound and no handle open, and the path the
  notebook reads.\<close>

definition fresh_kernel :: "(string \<rightharpoonup> nwbfile) \<Rightarrow> kernel" where
  "fresh_kernel fsys =
     \<lparr>files = fsys, open_handles = [], v_filepath = None, v_nwb = None, v_start = None,
      v_num_secs = None, v_fs = None, v_signal = None, v_n_channels = None,
      v_start_break = None, v_stop_break = None, v_bads = None, v_info = None, v_raw = None\<rparr>"

definition example_path :: string where
  "example_path = ''data/ecog-cv-syllables/EC9_B53.nwb''"

definition example_kernel :: "kernel" where
  "example_kernel = fresh_kernel [example_path \<mapsto> example_nwb]"

definition no_epochs_kernel :: "kernel" where
  "no_epochs_kernel = fresh_kernel [example_path \<mapsto> no_epochs_nwb]"

text \<open>A kernel in which an earlier session has left values behind.\<close>

definition stale_kernel :: "kernel" where
  "stale_kernel =
     example_kernel\<lparr>open_handles := [''old.nwb''], v_fs := Some 7, v_bads := Some [''9''],
       v_signal := Some \<lparr>ncols = 0, rows = []\<rparr>, v_start := Some (PyInt 5)\<rparr>"

section \<open>Decimal strings\<close>

lemma digit_cases: "d < 10 \<Longrightarrow> d \<in> {0, 1, 2, 3, 4, 5, 6, 7, 8, 9::nat}"
  by auto

lemma digit_val_digit_char: "d < 10 \<Longrightarrow> digit_val (digit_char d) = Some d"
  using digit_cases [of d] by (auto simp: digit_val_def digit_char_def)

lemma digit_char_not_minus: "d < 10 \<Longrightarrow> digit_char d \<noteq> CHR ''-''"
  using digit_cases [of d] by (auto simp: digit_char_def)

lemma is_digit_digit_char: "d < 10 \<Longrightarrow> is_digit (digit_char d)"
  using digit_cases [of d] by (auto simp: is_digit_def digit_char_def)

lemma digit_char_zero: "d < 10 \<Longrightarrow> digit_char d = CHR ''0'' \<longleftrightarrow> d = 0"
  using digit_cases [of d] by (auto simp: digit_char_def)

lemma read_nat_append:
  "read_nat acc (xs @ ys) = (case read_nat acc xs of None \<Rightarrow> None | Some a \<Rightarrow> read_nat a ys)"
  by (induction xs arbitrary: acc) (auto split: option.splits)

lemma read_nat_str_nat: "read_nat 0 (str_nat n) = Some n"
proof (induction n rule: str_nat.induct)
  case (1 n)
  show ?case
  proof (cases "n < 10")
    case True
    then show ?thesis by (subst str_nat.simps) (simp add: digit_val_digit_char)
  next
    case False
    with 1 have "read_nat 0 (str_nat (n div 10)) = Some (n div 10)" by simp
    with False show ?thesis
      by (subst str_nat.simps) (simp add: read_nat_append digit_val_digit_char)
  qed
qed

lemma str_nat_nonempty: "str_nat n \<noteq> []"
  by (subst str_nat.simps) simp

lemma hd_str_nat_not_minus: "hd (str_nat n) \<noteq> CHR ''-''"
proof (induction n rule: str_nat.induct)
  case (1 n)
  show ?case
  proof (cases "n < 10")
    case True
    then show ?thesis by (subst str_nat.simps) (simp add: digit_char_not_minus)
  next
    case False
    with 1 show ?thesis
      by (subst str_nat.simps) (simp add: str_nat_nonempty)
  qed
qed

lemma str_nat_digits: "list_all is_digit (str_nat n)"
proof (induction n rule: str_nat.induct)
  case (1 n)
  show ?case
  proof (cases "n < 10")
    case True
    then show ?thesis by (subst str_nat.simps) (simp add: is_digit_digit_char)
  next
    case False
    with 1 show ?thesis
      by (subst str_nat.simps) (simp add: is_digit_digit_char)
  qed
qed

lemma hd_str_nat_zero: "hd (str_nat n) = CHR ''0'' \<longleftrightarrow> n = 0"
proof (induction n rule: str_nat.induct)
  case (1 n)
  show ?case
  proof (cases "n < 10")
    case True
    then show ?thesis by (subst str_nat.simps) (simp add: digit_char_zero)
  next
    case False
    with 1 have "hd (str_nat (n div 10)) = CHR ''0'' \<longleftrightarrow> n div 10 = 0" by simp
    with False show ?thesis
      by (subst str_nat.simps) (simp add: str_nat_nonempty)
  qed
qed

lemma str_nat_0: "str_nat 0 = ''0''"
  by (subst str_nat.simps) (simp add: digit_char_def)

text \<open>\<open>str\<close> of a position is a decimal numeral.\<close>

lemma decimal_numeral_str: "decimal_numeral (str (int n))"
proof (cases "n = 0")
  case True
  then show ?thesis by (simp add: decimal_numeral_def str_def str_nat_0 is_digit_def)
next
  case False
  then show ?thesis
    by (simp add: decimal_numeral_def str_def str_nat_nonempty str_nat_digits hd_str_nat_zero)
qed

text \<open>Reading back what \<open>str\<close> wrote gives the integer again, so \<open>str\<close> is injective.\<close>

lemma read_int_str: "read_int (str i) = Some i"
proof (cases "i < 0")
  case True
  then show ?thesis
    by (simp add: str_def read_int_def read_nat_str_nat str_nat_nonempty)
next
  case False
  obtain c cs where cs: "str_nat (nat i) = c # cs"
    using str_nat_nonempty [of "nat i"] by (cases "str_nat (nat i)") auto
  with hd_str_nat_not_minus [of "nat i"] have "c \<noteq> CHR ''-''" by simp
  with False cs read_nat_str_nat [of "nat i"] show ?thesis
    by (simp add: str_def read_int_def)
qed

lemma str_inject: "str i = str j \<longleftrightarrow> i = j"
  by (metis read_int_str option.inject)

section \<open>The invalid-channel list\<close>

lemma slice_list_all: "slice_list xs None None = xs"
  by (simp add: slice_list_def)

lemma enumerate_py_nth: "enumerate_py xs = map (\<lambda>i. (int i, xs ! i)) [0..<length xs]"
  unfolding enumerate_py_def by (rule nth_equalityI) auto

lemma concat_if_singleton:
  "concat (map (\<lambda>x. if P x then [f x] else []) xs) = map f (filter P xs)"
  by (induction xs) auto

lemma read_invalid_channels_filter:
  "read_invalid_channels nwb =
     map (\<lambda>i. str (int i))
       (filter (\<lambda>i. bad (electrodes nwb) ! i) [0..<length (bad (electrodes nwb))])"
  unfolding read_invalid_channels_def slice_list_all enumerate_py_nth
  by (simp add: concat_if_singleton o_def)

lemma filter_upt_eq:
  assumes "{i. i < n \<and> P i} = set xs" and "sorted_wrt (<) xs"
  shows "filter P [0..<n] = (xs :: nat list)"
proof (rule sorted_distinct_set_unique)
  show "set (filter P [0..<n]) = set xs" using assms(1) by auto
  show "sorted (filter P [0..<n])" by (simp add: sorted_wrt_filter)
  show "distinct (filter P [0..<n])" by simp
  show "sorted xs" using assms(2) by (simp add: strict_sorted_iff)
  show "distinct xs" using assms(2) by (simp add: strict_sorted_iff)
qed

lemma filter_nth_none: "True \<notin> set xs \<Longrightarrow> filter (\<lambda>i. xs ! i) [0..<length xs] = []"
  by (auto simp: filter_empty_conv) (metis nth_mem)

lemma flagged_set: "{i. i < length xs \<and> xs ! i} = set (filter (\<lambda>i. xs ! i) [0..<length xs])"
  by auto

lemma str_small:
  "str 3 = ''3''" "str 7 = ''7''" "str 64 = ''64''" "str 65 = ''65''" "str 66 = ''66''"
  "str 89 = ''89''" "str 255 = ''255''"
  by (simp_all add: str_def str_nat.simps digit_char_def)

text \<open>
  C5. The invalid-channel list holds, in row order, the positions whose
  \<^verbatim>\<open>bad\<close> flag is true, each written as its decimal numeral: every element is a
  string of digits without a leading zero, and read back as a number the list is
  the list of the flagged positions. It is empty when no row is flagged,
  \<open>[''3'', ''7'']\<close> when the flagged rows are exactly those at positions 3 and 7, and
  the list the notebook shows when they are those at 64, 65, 66, 89 and 255.
\<close>

theorem invalid_channels_are_flagged_rows:
  "map read_int (read_invalid_channels nwb) =
     map (\<lambda>i. Some (int i))
       (filter (\<lambda>i. bad (electrodes nwb) ! i) [0..<length (bad (electrodes nwb))])
   \<and> list_all decimal_numeral (read_invalid_channels nwb)
   \<and> read_invalid_channels nwb =
       map (\<lambda>i. str (int i))
         (filter (\<lambda>i. bad (electrodes nwb) ! i) [0..<length (bad (electrodes nwb))])
   \<and> (True \<notin> set (bad (electrodes nwb)) \<longrightarrow> read_invalid_channels nwb = [])
   \<and> ({i. i < length (bad (electrodes nwb)) \<and> bad (electrodes nwb) ! i} = {3, 7} \<longrightarrow>
        read_invalid_channels nwb = [''3'', ''7''])
   \<and> ({i. i < length (bad (electrodes nwb)) \<and> bad (electrodes nwb) ! i} = {64, 65, 66, 89, 255} \<longrightarrow>
        read_invalid_channels nwb = [''64'', ''65'', ''66'', ''89'', ''255''])"
proof (intro conjI impI)
  show "map read_int (read_invalid_channels nwb) =
     map (\<lambda>i. Some (int i))
       (filter (\<lambda>i. bad (electrodes nwb) ! i) [0..<length (bad (electrodes nwb))])"
    by (simp add: read_invalid_channels_filter read_int_str o_def)
  show "list_all decimal_numeral (read_invalid_channels nwb)"
    by (simp add: read_invalid_channels_filter list_all_iff decimal_numeral_str)
  show "read_invalid_channels nwb =
     map (\<lambda>i. str (int i))
       (filter (\<lambda>i. bad (electrodes nwb) ! i) [0..<length (bad (electrodes nwb))])"
    by (rule read_invalid_channels_filter)
next
  assume "True \<notin> set (bad (electrodes nwb))"
  then show "read_invalid_channels nwb = []"
    by (simp add: read_invalid_channels_filter filter_nth_none)
next
  assume "{i. i < length (bad (electrodes nwb)) \<and> bad (electrodes nwb) ! i} = {3, 7}"
  then have "filter (\<lambda>i. bad (electrodes nwb) ! i) [0..<length (bad (electrodes nwb))] = [3, 7]"
    by (intro filter_upt_eq) simp_all
  then show "read_invalid_channels nwb = [''3'', ''7'']"
    by (simp add: read_invalid_channels_filter str_small)
next
  assume "{i. i < length (bad (electrodes nwb)) \<and> bad (electrodes nwb) ! i} =
      {64, 65, 66, 89, 255}"
  then have "filter (\<lambda>i. bad (electrodes nwb) ! i) [0..<length (bad (electrodes nwb))] =
      [64, 65, 66, 89, 255]"
    by (intro filter_upt_eq) simp_all
  then show "read_invalid_channels nwb = [''64'', ''65'', ''66'', ''89'', ''255'']"
    by (simp add: read_invalid_channels_filter str_small)
qed

lemma recorded_flags:
  "filter (\<lambda>i. bad (electrodes recorded_nwb) ! i) [0..<length (bad (electrodes recorded_nwb))] =
     [64, 65, 66, 89, 255]"
  unfolding recorded_nwb_def by code_simp

theorem invalid_channels_are_flagged_rows_witness:
  "True \<notin> set (bad (electrodes clean_nwb)) \<and> read_invalid_channels clean_nwb = []
   \<and> {i. i < length (bad (electrodes flagged_nwb)) \<and> bad (electrodes flagged_nwb) ! i} = {3, 7}
   \<and> read_invalid_channels flagged_nwb = [''3'', ''7'']
   \<and> {i. i < length (bad (electrodes recorded_nwb)) \<and> bad (electrodes recorded_nwb) ! i} =
       {64, 65, 66, 89, 255}
   \<and> read_invalid_channels recorded_nwb = [''64'', ''65'', ''66'', ''89'', ''255'']
   \<and> map read_int (read_invalid_channels recorded_nwb) =
       [Some 64, Some 65, Some 66, Some 89, Some 255]"
proof -
  have clean: "True \<notin> set (bad (electrodes clean_nwb))"
    by (simp add: clean_nwb_def)
  have flagged:
    "{i. i < length (bad (electrodes flagged_nwb)) \<and> bad (electrodes flagged_nwb) ! i} = {3, 7}"
    by (auto simp: flagged_nwb_def nth_Cons')
  have recorded:
    "{i. i < length (bad (electrodes recorded_nwb)) \<and> bad (electrodes recorded_nwb) ! i} =
       {64, 65, 66, 89, 255}"
    unfolding flagged_set recorded_flags by simp
  have "map read_int (read_invalid_channels recorded_nwb) =
       map (\<lambda>i. Some (int i))
         (filter (\<lambda>i. bad (electrodes recorded_nwb) ! i)
            [0..<length (bad (electrodes recorded_nwb))])"
    using invalid_channels_are_flagged_rows [of recorded_nwb] by blast
  then have "map read_int (read_invalid_channels recorded_nwb) =
       [Some 64, Some 65, Some 66, Some 89, Some 255]"
    by (simp add: recorded_flags)
  moreover have "read_invalid_channels clean_nwb = []"
    using clean invalid_channels_are_flagged_rows [of clean_nwb] by blast
  moreover have "read_invalid_channels flagged_nwb = [''3'', ''7'']"
    using flagged invalid_channels_are_flagged_rows [of flagged_nwb] by blast
  moreover have "read_invalid_channels recorded_nwb = [''64'', ''65'', ''66'', ''89'', ''255'']"
    using recorded invalid_channels_are_flagged_rows [of recorded_nwb] by blast
  ultimately show ?thesis
    using clean flagged recorded by simp
qed

text \<open>
  C10. For an electrode table of \<open>N\<close> rows, every element of the invalid-channel
  list is the decimal string of the integer read back from it, that integer is the
  position of a flagged row in \<open>[0, N)\<close>, the integers are pairwise distinct (and so
  are the strings) and strictly increasing, and the list has at most \<open>N\<close> elements.
\<close>

theorem invalid_channels_name_rows:
  "let bs = read_invalid_channels nwb;
       ids = map (\<lambda>s. the (read_int s)) bs;
       N = length (bad (electrodes nwb))
   in bs = map str ids
      \<and> (\<forall>i \<in> set ids. 0 \<le> i \<and> i < int N \<and> bad (electrodes nwb) ! nat i)
      \<and> distinct ids \<and> distinct bs
      \<and> sorted_wrt (<) ids
      \<and> length bs \<le> N"
proof -
  let ?js = "filter (\<lambda>i. bad (electrodes nwb) ! i) [0..<length (bad (electrodes nwb))]"
  have bs: "read_invalid_channels nwb = map (\<lambda>i. str (int i)) ?js"
    by (rule read_invalid_channels_filter)
  have ids: "map (\<lambda>s. the (read_int s)) (read_invalid_channels nwb) = map int ?js"
    by (simp add: bs read_int_str o_def)
  have d: "distinct (map int ?js)" by (simp add: distinct_map)
  have s: "sorted_wrt (<) (map int ?js)"
    by (simp add: sorted_wrt_map sorted_wrt_filter)
  have db: "distinct (map (\<lambda>i. str (int i)) ?js)"
    by (simp add: distinct_map inj_on_def str_inject)
  have l: "length ?js \<le> length (bad (electrodes nwb))"
    using length_filter_le [of _ "[0..<length (bad (electrodes nwb))]"] by simp
  show ?thesis
    unfolding Let_def ids using d s db l by (auto simp: bs o_def)
qed

theorem invalid_channels_name_rows_witness:
  "read_invalid_channels flagged_nwb = [''3'', ''7'']
   \<and> map (\<lambda>s. the (read_int s)) (read_invalid_channels flagged_nwb) = [3, 7]
   \<and> sorted_wrt (<) (map (\<lambda>s. the (read_int s)) (read_invalid_channels flagged_nwb))
   \<and> distinct (read_invalid_channels flagged_nwb)
   \<and> length (read_invalid_channels flagged_nwb) \<le> length (bad (electrodes flagged_nwb))"
proof -
  have bs: "read_invalid_channels flagged_nwb = [''3'', ''7'']"
    by (simp add: read_invalid_channels_filter flagged_nwb_def upt_rec str_def str_nat.simps
        digit_char_def)
  have ids: "map (\<lambda>s. the (read_int s)) (read_invalid_channels flagged_nwb) = [3, 7]"
    by (simp add: bs read_int_def digit_val_def)
  have "sorted_wrt (<) (map (\<lambda>s. the (read_int s)) (read_invalid_channels flagged_nwb))
      \<and> distinct (read_invalid_channels flagged_nwb)
      \<and> length (read_invalid_channels flagged_nwb) \<le> length (bad (electrodes flagged_nwb))"
    using invalid_channels_name_rows [of flagged_nwb] unfolding Let_def by blast
  with bs ids show ?thesis by blast
qed

section \<open>The window extractor\<close>

lemma round_half_even_cases:
  "round_half_even x = \<lfloor>x\<rfloor> \<or> round_half_even x = \<lfloor>x\<rfloor> + 1"
  by (simp add: round_half_even_def Let_def)

lemma round_half_even_nonneg: "0 \<le> x \<Longrightarrow> 0 \<le> round_half_even x"
  using round_half_even_cases [of x] by (auto simp: zero_le_floor)

lemma round_half_even_nearest: "\<bar>of_int (round_half_even x) - x\<bar> \<le> 1 / 2"
  unfolding round_half_even_def Let_def by (auto simp: abs_le_iff)

lemma round_half_even_401: "\<bar>x - 4007 / 10\<bar> < 1 / 10 \<Longrightarrow> round_half_even x = 401"
proof -
  assume a: "\<bar>x - 4007 / 10\<bar> < 1 / 10"
  then have "400 \<le> x \<and> x < 400 + 1" by linarith
  then have f: "\<lfloor>x\<rfloor> = 400" by (simp add: floor_eq_iff)
  from a have "1 / 2 < x - 400" by linarith
  with f show ?thesis by (simp add: round_half_even_def Let_def)
qed

lemma slice_list_in_range:
  assumes "0 \<le> lo" "lo \<le> hi" "hi \<le> int (length xs)"
  shows "slice_list xs (Some lo) (Some hi) = map (\<lambda>i. xs ! i) [nat lo..<nat hi]"
proof -
  have "slice_list xs (Some lo) (Some hi) = take (nat hi - nat lo) (drop (nat lo) xs)"
    using assms by (auto simp: slice_list_def clamp_index_def min_def Let_def)
  also have "\<dots> = map (\<lambda>i. xs ! i) [nat lo..<nat hi]"
    using assms by (intro nth_equalityI) auto
  finally show ?thesis .
qed

lemma slice_list_past_end:
  assumes "0 \<le> lo" "int (length xs) < hi"
  shows "slice_list xs (Some lo) (Some hi) = drop (nat lo) xs"
  using assms by (auto simp: slice_list_def clamp_index_def min_def Let_def)

lemma rest_short:
  "0 \<le> (a::int) \<Longrightarrow> 0 < b \<Longrightarrow> int n < b + a \<Longrightarrow> n - nat a < nat b"
  by linarith

lemma getitem_rows_eq:
  "getitem_rows a lo hi = \<lparr>ncols = ncols a, rows = slice_list (rows a) (Some lo) (Some hi)\<rparr>"
  by (simp add: getitem_rows_def slice_list_def)

text \<open>With an \<^verbatim>\<open>int\<close> start and an \<^verbatim>\<open>int\<close> number of seconds both bounds are integers
  and the slice is taken.\<close>

lemma extract_window_eq:
  assumes "acquisition nwb ''ElectricalSeries'' = Some es" and "rate es = Finite r"
  shows "extract_window nwb (PyInt start) (PyInt num_secs) =
           Inr (getitem_rows (data es) (start * round_half_even r)
                  ((start + num_secs) * round_half_even r))"
  using assms
  by (simp add: extract_window_def sampling_frequency_def window_def bind_err_def lookup_def)

text \<open>With a \<^verbatim>\<open>float\<close> start or a \<^verbatim>\<open>float\<close> number of seconds no array is returned:
  a bound is a \<^verbatim>\<open>float\<close>, and the slice (or, before it, the conversion of an
  \<^verbatim>\<open>int\<close> operand) raises.\<close>

lemma getitem_rows_bounds_float:
  "getitem_rows_bounds a FloatBound hi = Inl TypeError"
  "getitem_rows_bounds a lo FloatBound = Inl TypeError"
  by (cases hi; simp) (cases lo; simp)

lemma window_float_start: "isl (window nwb fs (PyFloat x) num_secs)"
  by (cases num_secs)
     (auto simp: window_def bind_err_def lookup_def getitem_rows_bounds_float
        split: option.splits sum.splits)

lemma window_float_num_secs: "isl (window nwb fs start (PyFloat y))"
  by (cases start)
     (auto simp: window_def bind_err_def lookup_def getitem_rows_bounds_float
        split: option.splits sum.splits)

lemma extract_window_float:
  "isl (extract_window nwb (PyFloat x) num_secs)" "isl (extract_window nwb start (PyFloat y))"
  using window_float_start [of nwb _ x num_secs] window_float_num_secs [of nwb _ start y]
  by (auto simp: extract_window_def bind_err_def split: sum.splits)

lemma acquisition_example: "acquisition example_nwb ''ElectricalSeries'' = Some example_series"
  by (simp add: example_nwb_def)

lemma round_half_even_2: "round_half_even 2 = 2"
  by (simp add: round_half_even_def)

lemma float_of_int_ok_2: "float_of_int_ok 2"
  by (simp add: float_of_int_ok_def)

text \<open>
  C1, as stated, fails: with the rate 2 and 6 samples the request \<open>start = 0.5\<close>,
  \<open>duration = 1.0\<close> has \<open>(start + duration) * round(rate) = 3 \<le> 6\<close>, yet the slice
  \<^verbatim>\<open>data[1.0:3.0, :]\<close> raises TypeError.
\<close>

theorem window_float_request_counterexample:
  "py_round (rate example_series) = Inr 2
   \<and> (1 / 2 + 1) * (2::real) \<le> real (length (rows (data example_series)))
   \<and> extract_window example_nwb (f64 (1 / 2)) (f64 1) = Inl TypeError"
  by (simp add: extract_window_def sampling_frequency_def window_def bind_err_def lookup_def
      acquisition_example example_series_def round_half_even_2 float_of_int_ok_2)

text \<open>
  C1, amended. For a record with a positive rate and a window request whose start
  and duration are integers, non-negative, with the upper bound
  \<open>(start + duration) * round(rate)\<close> at most the number of samples, the extraction
  returns the rows with the indices
  \<open>[round(rate) * start, round(rate) * (start + duration))\<close>, every channel of each:
  an array of shape \<open>(duration * round(rate), channel_count)\<close>. A request whose start
  or duration is a \<^verbatim>\<open>float\<close> returns no array: the extraction raises.
\<close>

theorem window_in_range:
  assumes "acquisition nwb ''ElectricalSeries'' = Some es"
    and "rate es = Finite r" and "0 < r"
    and "0 \<le> start" and "0 \<le> num_secs"
    and "(start + num_secs) * round_half_even r \<le> int (length (rows (data es)))"
  shows "(let w = \<lparr>ncols = ncols (data es),
                   rows = map (\<lambda>i. rows (data es) ! i)
                     [nat (round_half_even r * start)..<
                      nat (round_half_even r * (start + num_secs))]\<rparr>
          in extract_window nwb (PyInt start) (PyInt num_secs) = Inr w
             \<and> shape w = (nat (num_secs * round_half_even r), ncols (data es)))
     \<and> isl (extract_window nwb (PyFloat x) n2)
     \<and> isl (extract_window nwb n1 (PyFloat y))"
proof -
  let ?fs = "round_half_even r"
  have fs: "0 \<le> ?fs" using assms(3) by (simp add: round_half_even_nonneg)
  have lo: "0 \<le> start * ?fs" using fs assms(4) by simp
  have le: "start * ?fs \<le> (start + num_secs) * ?fs"
    using fs assms(5) by (simp add: mult_right_mono)
  have "slice_list (rows (data es)) (Some (start * ?fs)) (Some ((start + num_secs) * ?fs)) =
          map (\<lambda>i. rows (data es) ! i) [nat (start * ?fs)..<nat ((start + num_secs) * ?fs)]"
    using lo le assms(6) by (rule slice_list_in_range)
  moreover have "nat ((start + num_secs) * ?fs) - nat (start * ?fs) = nat (num_secs * ?fs)"
    using lo le by (simp add: nat_diff_distrib algebra_simps)
  ultimately show ?thesis
    using extract_window_eq [OF assms(1,2), of start num_secs]
    by (simp add: Let_def getitem_rows_eq shape_def mult.commute extract_window_float)
qed

theorem window_in_range_witness:
  "acquisition example_nwb ''ElectricalSeries'' = Some example_series
   \<and> rate example_series = Finite 2
   \<and> (1 + 2) * round_half_even 2 \<le> int (length (rows (data example_series)))
   \<and> extract_window example_nwb (PyInt 1) (PyInt 2) =
       Inr \<lparr>ncols = 2,
            rows = [[f64 5, f64 6], [f64 7, f64 8], [f64 9, f64 10], [f64 11, f64 12]]\<rparr>
   \<and> shape \<lparr>ncols = 2,
            rows = [[f64 5, f64 6], [f64 7, f64 8], [f64 9, f64 10], [f64 11, f64 12]]\<rparr> =
       (nat (2 * round_half_even 2), 2)
   \<and> isl (extract_window example_nwb (f64 (1 / 2)) (PyInt 1))"
proof -
  note r = round_half_even_2
  note h1 = acquisition_example
  have h2: "rate example_series = Finite 2" by (simp add: example_series_def)
  have h3: "(0::real) < 2" by simp
  have h4: "(0::int) \<le> 1" by simp
  have h5: "(0::int) \<le> 2" by simp
  have h6: "(1 + 2) * round_half_even 2 \<le> int (length (rows (data example_series)))"
    by (simp add: r example_series_def)
  have "[nat (2 * 1)..<nat (2 * (1 + 2))] = [2, 3, 4, 5]" by (simp add: upt_rec)
  with window_in_range [OF h1 h2 h3 h4 h5 h6, of "Finite (1 / 2)" "PyInt 1"] h1 h2 h6
  show ?thesis
    by (simp add: Let_def r example_series_def)
qed

text \<open>
  C2. The claim is what the notebook itself documents (its text calls the slice
  \<open>(num_secs * fs, n_channels)\<close>-dimensional), and the code does not keep to it: it
  has no check of the upper bound, and the slice is clamped to the record. In the
  example file (6 samples at 2 Hz) the request \<open>start = 2\<close>, \<open>num_secs = 2\<close> has
  the upper bound 8; the extraction raises nothing and returns the last two rows
  where four were asked for.
\<close>

theorem window_past_end_returns_truncated:
  "py_round (rate example_series) = Inr 2
   \<and> int (length (rows (data example_series))) < 2 * (2 + 2)
   \<and> extract_window example_nwb (PyInt 2) (PyInt 2) =
       Inr \<lparr>ncols = 2, rows = [[f64 9, f64 10], [f64 11, f64 12]]\<rparr>"
  by (simp add: extract_window_eq [OF acquisition_example, of 2] round_half_even_2
      example_series_def getitem_rows_eq slice_list_def clamp_index_def)

text \<open>In general, an integer request that reaches past the last sample returns the
  rows from its lower bound to the end of the record, fewer than it asked for.\<close>

lemma window_past_end_clamped:
  assumes "acquisition nwb ''ElectricalSeries'' = Some es"
    and "rate es = Finite r" and "0 < r"
    and "0 \<le> start" and "0 < num_secs"
    and "int (length (rows (data es))) < (start + num_secs) * round_half_even r"
  shows "let w = \<lparr>ncols = ncols (data es),
                  rows = drop (nat (round_half_even r * start)) (rows (data es))\<rparr>
         in extract_window nwb (PyInt start) (PyInt num_secs) = Inr w
            \<and> fst (shape w) < nat (num_secs * round_half_even r)"
proof -
  let ?fs = "round_half_even r"
  have fs: "0 \<le> ?fs" using assms(3) by (simp add: round_half_even_nonneg)
  have lo: "0 \<le> start * ?fs" using fs assms(4) by simp
  have "?fs \<noteq> 0" using assms(6) by auto
  with fs assms(5) have pos: "0 < num_secs * ?fs" by simp
  have "slice_list (rows (data es)) (Some (start * ?fs)) (Some ((start + num_secs) * ?fs)) =
          drop (nat (start * ?fs)) (rows (data es))"
    using lo assms(6) by (rule slice_list_past_end)
  moreover have "length (rows (data es)) - nat (start * ?fs) < nat (num_secs * ?fs)"
    using lo pos assms(6) by (intro rest_short) (simp_all add: algebra_simps)
  ultimately show ?thesis
    using extract_window_eq [OF assms(1,2), of start num_secs]
    by (simp add: Let_def getitem_rows_eq shape_def mult.commute)
qed

text \<open>
  C7. The sampling frequency used for both sample bounds is the stored rate rounded
  to a nearest integer. For a stored rate of 400.7 (and any rate within 0.1 of it,
  so also the floating-point number nearest to 400.7) the rounded rate is 401, and
  with \<open>start = 20\<close> and \<open>num_secs = 60\<close> on a record that holds the 32080 samples the
  window reaches, the extracted array has 24060 rows.
\<close>

theorem window_uses_rounded_rate:
  assumes "acquisition nwb ''ElectricalSeries'' = Some es" and "rate es = Finite r"
  shows "sampling_frequency nwb = Inr (round_half_even r)
     \<and> \<bar>of_int (round_half_even r) - r\<bar> \<le> 1 / 2
     \<and> extract_window nwb (PyInt start) (PyInt num_secs) =
          Inr (getitem_rows (data es) (start * round_half_even r)
                 ((start + num_secs) * round_half_even r))
     \<and> (\<bar>r - 4007 / 10\<bar> < 1 / 10 \<longrightarrow>
          round_half_even r = 401
          \<and> (32080 \<le> length (rows (data es)) \<longrightarrow>
               shape (getitem_rows (data es) (20 * 401) ((20 + 60) * 401)) =
                 (24060, ncols (data es))))"
proof (intro conjI impI)
  show "sampling_frequency nwb = Inr (round_half_even r)"
    using assms by (simp add: sampling_frequency_def lookup_def bind_err_def)
  show "\<bar>of_int (round_half_even r) - r\<bar> \<le> 1 / 2" by (rule round_half_even_nearest)
  show "extract_window nwb (PyInt start) (PyInt num_secs) =
          Inr (getitem_rows (data es) (start * round_half_even r)
                 ((start + num_secs) * round_half_even r))"
    using assms by (rule extract_window_eq)
next
  assume "\<bar>r - 4007 / 10\<bar> < 1 / 10"
  then show "round_half_even r = 401" by (rule round_half_even_401)
next
  assume "32080 \<le> length (rows (data es))"
  then show "shape (getitem_rows (data es) (20 * 401) ((20 + 60) * 401)) =
      (24060, ncols (data es))"
    by (simp add: getitem_rows_eq shape_def slice_list_def clamp_index_def)
qed

theorem window_uses_rounded_rate_witness:
  "acquisition long_nwb ''ElectricalSeries'' = Some long_series
   \<and> rate long_series = Finite (4007 / 10)
   \<and> 32080 \<le> length (rows (data long_series))
   \<and> sampling_frequency long_nwb = Inr 401
   \<and> map_sum id shape (extract_window long_nwb (PyInt 20) (PyInt 60)) = Inr (24060, 1)"
proof -
  have h1: "acquisition long_nwb ''ElectricalSeries'' = Some long_series"
    by (simp add: long_nwb_def)
  have h2: "rate long_series = Finite (4007 / 10)" by (simp add: long_series_def)
  have h3: "\<bar>4007 / 10 - 4007 / 10 :: real\<bar> < 1 / 10" by simp
  have h4: "32080 \<le> length (rows (data long_series))" by (simp add: long_series_def)
  from window_uses_rounded_rate [OF h1 h2, of 20 60] h3 h4
  have "sampling_frequency long_nwb = Inr 401"
    and "extract_window long_nwb (PyInt 20) (PyInt 60) =
           Inr (getitem_rows (data long_series) (20 * 401) ((20 + 60) * 401))"
    and "shape (getitem_rows (data long_series) (20 * 401) ((20 + 60) * 401)) =
           (24060, ncols (data long_series))"
    by simp_all
  with h1 h2 h4 show ?thesis by (simp add: long_series_def)
qed

section \<open>The signal object\<close>

lemma round_half_even_of_int: "round_half_even (of_int k) = k"
  by (simp add: round_half_even_def)

text \<open>An integer of magnitude at most \<open>2 ^ 53\<close> is a double; the first one that is not
  is \<open>2 ^ 53 + 1\<close>, which becomes \<open>2 ^ 53\<close>.\<close>

lemma float64_of_int_exact:
  assumes "\<bar>i\<bar> \<le> 2 ^ 53"
  shows "float64_of_int i = Finite (of_int i)"
proof (cases "\<bar>i\<bar> < 2 ^ 53")
  case True
  then have "bitlen \<bar>i\<bar> \<le> 53" by (simp add: bitlen_le_iff_power)
  then show ?thesis by (simp add: float64_of_int_def)
next
  case False
  with assms have a: "\<bar>i\<bar> = 2 ^ 53" by simp
  have b: "bitlen \<bar>i\<bar> - 53 = 1"
    using bitlen_twopow_add_eq [of 0 53] by (simp add: a)
  from a have "i = 2 ^ 53 \<or> i = - (2 ^ 53)" by linarith
  then show ?thesis
    unfolding float64_of_int_def b by (auto simp: round_half_even_def)
qed

lemma float64_of_int_2: "float64_of_int 2 = Finite 2"
  using float64_of_int_exact [of 2] by simp


lemma to_float64_cases:
  "to_float64 (PyFloat x) = PyFloat x"
  "\<bar>i\<bar> \<le> 2 ^ 53 \<Longrightarrow> to_float64 (PyInt i) = f64 (of_int i)"
  by (simp_all add: float64_of_int_exact)


lemma shape_astype_transpose:
  "shape (astype_float64 (transpose_T a)) = (snd (shape a), fst (shape a))"
  by (simp add: shape_def transpose_T_def astype_float64_def)


lemma wf_transpose_T: "wf_ndarray (transpose_T a)"
  by (simp add: wf_ndarray_def transpose_T_def list_all_iff)

text \<open>When the signal object is built: a sampling frequency that is positive (and
  within the doubles), one channel name per column of the window, and only channel
  names among the bad channels.\<close>

lemma build_cases:
  "build signal n fs bs =
     (if \<not> float_of_int_ok fs then Inl OverflowError
      else if fs \<le> 0 then Inl ValueError
      else if snd (shape signal) \<noteq> n then Inl ValueError
      else if \<not> list_all (\<lambda>b. b \<in> (\<lambda>i. str (int i)) ` {0..<n}) bs then Inl RuntimeError
      else Inr \<lparr>raw_data = astype_float64 (transpose_T signal),
                raw_info = \<lparr>ch_names = map (\<lambda>i. str (int i)) [0..<n],
                             ch_types = replicate n ''ecog'', sfreq = float64_of_int fs,
                             bads = bs\<rparr>\<rparr>)"
  by (simp add: build_def create_info_def RawArray_def bind_err_def shape_astype_transpose)




section \<open>The whole notebook\<close>

lemmas stmt_defs =
  s_filepath_def s_nwb_def s_start_def s_num_secs_def s_fs_def s_signal_def s_n_channels_def
  s_start_break_def s_stop_break_def s_bads_def s_info_def s_info_bads_def s_raw_def

text \<open>
  Whatever the kernel held before, a run from the first cell to the last computes the
  function \<open>pipeline\<close> of the files and the three parameters: every name is assigned
  before it is read.
\<close>

lemma run_pipeline: "run p st n k = map_sum id Some (pipeline (files k) p st n)"
  unfolding run_def notebook_def pipeline_def
  by (auto simp: stmt_defs bind_err_def var_def open_file_def sampling_frequency_def window_def
      read_baseline_def build_def lookup_def outputs_of_def
      split: option.splits sum.splits)

lemma exec_outcome:
  "fst (exec (notebook p st n) k) = (case run p st n k of Inl e \<Rightarrow> Some e | Inr _ \<Rightarrow> None)"
  by (simp add: run_def split: prod.splits option.splits)

lemma example_pipeline:
  "pipeline [example_path \<mapsto> example_nwb] example_path (PyInt 1) (PyInt 2) =
     Inr \<lparr>out_signal = \<lparr>ncols = 2, rows = [[f64 5, f64 6], [f64 7, f64 8], [f64 9, f64 10], [f64 11, f64 12]]\<rparr>,
          out_baseline = (Finite 318, Finite 334),
          out_bads = [''1''],
          out_raw = \<lparr>raw_data = \<lparr>ncols = 4, rows = [[f64 5, f64 7, f64 9, f64 11], [f64 6, f64 8, f64 10, f64 12]]\<rparr>,
                     raw_info = \<lparr>ch_names = [''0'', ''1''], ch_types = [''ecog'', ''ecog''],
                                 sfreq = Finite 2, bads = [''1'']\<rparr>\<rparr>\<rparr>"
proof -
  have fs: "sampling_frequency example_nwb = Inr 2"
    by (simp add: sampling_frequency_def example_nwb_def example_series_def lookup_def
        bind_err_def round_half_even_def)
  have w: "window example_nwb 2 (PyInt 1) (PyInt 2) =
      Inr \<lparr>ncols = 2, rows = [[f64 5, f64 6], [f64 7, f64 8], [f64 9, f64 10], [f64 11, f64 12]]\<rparr>"
    by (simp add: window_def example_nwb_def example_series_def lookup_def bind_err_def
        getitem_rows_eq slice_list_def clamp_index_def)
  have bl: "read_baseline example_nwb = Inr (Finite 318, Finite 334)"
    by (simp add: read_baseline_def example_nwb_def getitem_def bind_err_def)
  have bs: "read_invalid_channels example_nwb = [''1'']"
    by (simp add: read_invalid_channels_filter example_nwb_def upt_rec str_def str_nat.simps
        digit_char_def)
  have b: "build \<lparr>ncols = 2, rows = [[f64 5, f64 6], [f64 7, f64 8], [f64 9, f64 10], [f64 11, f64 12]]\<rparr> 2 2 [''1''] =
     Inr \<lparr>raw_data = \<lparr>ncols = 4, rows = [[f64 5, f64 7, f64 9, f64 11], [f64 6, f64 8, f64 10, f64 12]]\<rparr>,
          raw_info = \<lparr>ch_names = [''0'', ''1''], ch_types = [''ecog'', ''ecog''],
                       sfreq = Finite 2, bads = [''1'']\<rparr>\<rparr>"
    by (simp add: build_def create_info_def RawArray_def bind_err_def float_of_int_ok_2
        float64_of_int_2 transpose_T_def astype_float64_def shape_def
        upt_rec str_def str_nat.simps digit_char_def numeral_2_eq_2)
  show ?thesis
    by (simp add: pipeline_def open_file_def bind_err_def fs w bl bs b shape_def)
qed

lemma run_example:
  "run example_path (PyInt 1) (PyInt 2) example_kernel =
     map_sum id Some (pipeline [example_path \<mapsto> example_nwb] example_path (PyInt 1) (PyInt 2))"
  by (simp add: run_pipeline example_kernel_def fresh_kernel_def)

text \<open>
  C9. The outcome of a run (the exception that stops it, or the window, the baseline
  pair, the invalid-channel list and the signal object) depends on the files and the
  three parameters only: two kernels that see the same files give the same outcome,
  whatever variables and handles earlier runs left in them.
\<close>

theorem run_deterministic:
  "files k1 = files k2 \<Longrightarrow> run p st n k1 = run p st n k2"
  by (simp add: run_pipeline)

theorem run_deterministic_witness:
  "files stale_kernel = files example_kernel
   \<and> run example_path (PyInt 1) (PyInt 2) stale_kernel = run example_path (PyInt 1) (PyInt 2) example_kernel
   \<and> run example_path (PyInt 1) (PyInt 2) example_kernel =
     Inr (Some \<lparr>out_signal = \<lparr>ncols = 2, rows = [[f64 5, f64 6], [f64 7, f64 8], [f64 9, f64 10], [f64 11, f64 12]]\<rparr>,
          out_baseline = (Finite 318, Finite 334),
          out_bads = [''1''],
          out_raw = \<lparr>raw_data = \<lparr>ncols = 4, rows = [[f64 5, f64 7, f64 9, f64 11], [f64 6, f64 8, f64 10, f64 12]]\<rparr>,
                     raw_info = \<lparr>ch_names = [''0'', ''1''], ch_types = [''ecog'', ''ecog''],
                                 sfreq = Finite 2, bads = [''1'']\<rparr>\<rparr>\<rparr>)"
proof -
  have f: "files stale_kernel = files example_kernel" by (simp add: stale_kernel_def)
  from run_deterministic [OF f, of example_path "PyInt 1" "PyInt 2"] f show ?thesis
    by (simp add: run_example example_pipeline)
qed

section \<open>The baseline interval\<close>

lemma getitem_0: "getitem xs 0 = (case xs of [] \<Rightarrow> Inl IndexError | x # _ \<Rightarrow> Inr x)"
  by (cases xs) (simp_all add: getitem_def)

lemma read_baseline_empty:
  "table_rows (epochs nwb) = [] \<Longrightarrow> read_baseline nwb = Inl IndexError"
  by (cases "start_time (epochs nwb)"; cases "stop_time (epochs nwb)")
     (auto simp: table_rows_def read_baseline_def bind_err_def getitem_0)

text \<open>After a run that an empty epoch table stops, the names of the later cells hold
  what they held before: neither the list of bad channels nor the signal object is
  made.\<close>

lemma abort_builds_nothing:
  assumes "files k p = Some nwb" and "table_rows (epochs nwb) = []"
  shows "v_bads (snd (exec (notebook p st n) k)) = v_bads k
       \<and> v_info (snd (exec (notebook p st n) k)) = v_info k
       \<and> v_raw (snd (exec (notebook p st n) k)) = v_raw k"
  using assms
  by (cases "start_time (epochs nwb)"; cases "stop_time (epochs nwb)")
     (simp_all add: table_rows_def notebook_def stmt_defs bind_err_def var_def getitem_0
        split: sum.splits option.splits)

lemma files_no_epochs: "files no_epochs_kernel example_path = Some no_epochs_nwb"
  by (simp add: no_epochs_kernel_def fresh_kernel_def)

lemma window_no_epochs:
  "extract_window no_epochs_nwb (PyInt 1) (PyInt 2) =
     Inr \<lparr>ncols = 2, rows = [[f64 5, f64 6], [f64 7, f64 8], [f64 9, f64 10], [f64 11, f64 12]]\<rparr>"
proof -
  have "acquisition no_epochs_nwb ''ElectricalSeries'' = Some example_series"
    by (simp add: no_epochs_nwb_def example_nwb_def)
  then show ?thesis
    by (simp add: extract_window_eq [of _ _ 2] example_series_def round_half_even_def
        getitem_rows_eq slice_list_def clamp_index_def)
qed

text \<open>
  C3. When the epoch table has a first row, \<open>read_baseline\<close> returns that row, its
  \<open>(start_time, stop_time)\<close> pair, whatever rows follow; on the rows
  \<open>[(318.0, 334.0), (400.0, 420.0)]\<close> it returns \<open>(318.0, 334.0)\<close>.
\<close>

theorem read_baseline_first_row:
  "(table_rows (epochs nwb) = r # rest \<longrightarrow> read_baseline nwb = Inr r)
   \<and> (table_rows (epochs nwb) = [(Finite 318, Finite 334), (Finite 400, Finite 420)] \<longrightarrow>
        read_baseline nwb = Inr (Finite 318, Finite 334))"
  by (cases "start_time (epochs nwb)"; cases "stop_time (epochs nwb)")
     (auto simp: table_rows_def read_baseline_def bind_err_def getitem_0)

theorem read_baseline_first_row_witness:
  "table_rows (epochs example_nwb) = [(Finite 318, Finite 334), (Finite 400, Finite 420)]
   \<and> read_baseline example_nwb = Inr (Finite 318, Finite 334)"
proof -
  have h: "table_rows (epochs example_nwb) = [(Finite 318, Finite 334), (Finite 400, Finite 420)]"
    by (simp add: table_rows_def example_nwb_def)
  with read_baseline_first_row
         [of example_nwb "(Finite 318, Finite 334)" "[(Finite 400, Finite 420)]"]
  show ?thesis by simp
qed

text \<open>What an aborted run leaves behind: when the window was extracted before the
  empty epoch table stops the run, the sampling frequency, the window and the
  channel count stay bound in the kernel.\<close>

lemma abort_keeps_window:
  assumes "files k p = Some nwb" and "table_rows (epochs nwb) = []"
    and "extract_window nwb st n = Inr w"
  shows "v_signal (snd (exec (notebook p st n) k)) = Some w
       \<and> v_n_channels (snd (exec (notebook p st n) k)) = Some (snd (shape w))
       \<and> map_option Inr (v_fs (snd (exec (notebook p st n) k))) = Some (sampling_frequency nwb)"
  using assms
  by (cases "start_time (epochs nwb)"; cases "stop_time (epochs nwb)")
     (auto simp: table_rows_def notebook_def stmt_defs bind_err_def var_def getitem_0
        extract_window_def window_def lookup_def
        split: sum.splits option.splits)

lemma run_no_epochs: "run example_path (PyInt 1) (PyInt 2) no_epochs_kernel = Inl IndexError"
proof -
  have "sampling_frequency no_epochs_nwb = Inr 2"
    and "window no_epochs_nwb 2 (PyInt 1) (PyInt 2) =
      Inr \<lparr>ncols = 2, rows = [[f64 5, f64 6], [f64 7, f64 8], [f64 9, f64 10], [f64 11, f64 12]]\<rparr>"
    and "read_baseline no_epochs_nwb = Inl IndexError"
    by (simp_all add: sampling_frequency_def window_def read_baseline_def no_epochs_nwb_def
        example_nwb_def example_series_def lookup_def bind_err_def round_half_even_def
        getitem_rows_eq slice_list_def clamp_index_def getitem_0)
  then show ?thesis
    by (simp add: run_pipeline no_epochs_kernel_def fresh_kernel_def pipeline_def open_file_def
        bind_err_def)
qed

text \<open>
  C4, as stated, fails in its second half: the run that the empty epoch table aborts
  has already produced a partial result. On the example file without epochs the run
  ends with IndexError, and the window extracted in the cell before (with the
  channel count) is bound in the kernel, which held nothing before the run.
\<close>

theorem aborted_run_keeps_window_counterexample:
  "table_rows (epochs no_epochs_nwb) = []
   \<and> files no_epochs_kernel example_path = Some no_epochs_nwb
   \<and> v_signal no_epochs_kernel = None
   \<and> run example_path (PyInt 1) (PyInt 2) no_epochs_kernel = Inl IndexError
   \<and> v_signal (snd (exec (notebook example_path (PyInt 1) (PyInt 2)) no_epochs_kernel)) =
       Some \<lparr>ncols = 2,
             rows = [[f64 5, f64 6], [f64 7, f64 8], [f64 9, f64 10], [f64 11, f64 12]]\<rparr>
   \<and> v_n_channels (snd (exec (notebook example_path (PyInt 1) (PyInt 2)) no_epochs_kernel)) =
       Some 2"
proof -
  have h: "table_rows (epochs no_epochs_nwb) = []"
    by (simp add: table_rows_def no_epochs_nwb_def)
  have v: "v_signal no_epochs_kernel = None"
    by (simp add: no_epochs_kernel_def fresh_kernel_def)
  from abort_keeps_window [OF files_no_epochs h window_no_epochs] h v files_no_epochs
    run_no_epochs
  show ?thesis by (simp add: shape_def)
qed

text \<open>
  C4, amended. When the epoch table has no row, \<open>read_baseline\<close> fails with Python's
  IndexError (the code has no error of its own for a missing annotation), and every
  run on a file with such a table ends with an exception and makes neither the list
  of bad channels nor the signal object. When the window extraction before it
  succeeded, that exception is the IndexError, and the sampling frequency, the
  extracted window and the channel count stay bound in the kernel: the stages behind the failure produce
  nothing, the stages before it keep what they produced.
\<close>

theorem read_baseline_empty_table:
  assumes "table_rows (epochs nwb) = []"
  shows "read_baseline nwb = Inl IndexError
     \<and> (files k p = Some nwb \<longrightarrow>
          isl (run p st n k)
          \<and> (\<not> isl (extract_window nwb st n) \<longrightarrow> run p st n k = Inl IndexError)
          \<and> (\<forall>w. extract_window nwb st n = Inr w \<longrightarrow>
                v_signal (snd (exec (notebook p st n) k)) = Some w
                \<and> v_n_channels (snd (exec (notebook p st n) k)) = Some (snd (shape w))
                \<and> map_option Inr (v_fs (snd (exec (notebook p st n) k))) =
                    Some (sampling_frequency nwb))
          \<and> v_bads (snd (exec (notebook p st n) k)) = v_bads k
          \<and> v_raw (snd (exec (notebook p st n) k)) = v_raw k)"
proof -
  note rb = read_baseline_empty [OF assms]
  have "files k p = Some nwb \<Longrightarrow> isl (run p st n k)"
    using rb by (auto simp: run_pipeline pipeline_def open_file_def bind_err_def split: sum.splits)
  moreover have "files k p = Some nwb \<Longrightarrow> \<not> isl (extract_window nwb st n) \<Longrightarrow>
      run p st n k = Inl IndexError"
    using rb
    by (auto simp: run_pipeline pipeline_def open_file_def bind_err_def extract_window_def
        split: sum.splits)
  ultimately show ?thesis
    using rb abort_builds_nothing [OF _ assms, of k p st n]
      abort_keeps_window [OF _ assms, of k p st n]
    by blast
qed

theorem read_baseline_empty_table_witness:
  "table_rows (epochs no_epochs_nwb) = []
   \<and> files no_epochs_kernel example_path = Some no_epochs_nwb
   \<and> read_baseline no_epochs_nwb = Inl IndexError
   \<and> run example_path (PyInt 1) (PyInt 2) no_epochs_kernel = Inl IndexError
   \<and> v_signal (snd (exec (notebook example_path (PyInt 1) (PyInt 2)) no_epochs_kernel)) =
       Some \<lparr>ncols = 2,
             rows = [[f64 5, f64 6], [f64 7, f64 8], [f64 9, f64 10], [f64 11, f64 12]]\<rparr>
   \<and> v_raw (snd (exec (notebook example_path (PyInt 1) (PyInt 2)) no_epochs_kernel)) = None"
proof -
  have h: "table_rows (epochs no_epochs_nwb) = []"
    by (simp add: table_rows_def no_epochs_nwb_def)
  have w: "\<not> isl (extract_window no_epochs_nwb (PyInt 1) (PyInt 2))"
    by (simp add: window_no_epochs)
  have v: "v_raw no_epochs_kernel = None"
    by (simp add: no_epochs_kernel_def fresh_kernel_def)
  from read_baseline_empty_table [OF h, of no_epochs_kernel example_path "PyInt 1" "PyInt 2"]
    h w v files_no_epochs window_no_epochs
  show ?thesis by simp
qed

section \<open>The container handle\<close>

lemma exec_append:
  "exec (xs @ ys) k =
     (case exec xs k of (Some e, k') \<Rightarrow> (Some e, k') | (None, k') \<Rightarrow> exec ys k')"
  by (induction xs arbitrary: k) (auto split: sum.splits)

lemma exec_keeps_handles:
  "(\<forall>s \<in> set ss. \<forall>k k'. s k = Inr k' \<longrightarrow> open_handles k' = open_handles k) \<Longrightarrow>
     open_handles (snd (exec ss k)) = open_handles k"
proof (induction ss arbitrary: k)
  case Nil
  then show ?case by simp
next
  case (Cons s ss)
  then show ?case by (cases "s k") auto
qed

text \<open>No statement after the one that opens the file touches the open handles, and
  none of the notebook closes one.\<close>

lemma later_cells_keep_handles:
  "open_handles
     (snd (exec [s_start st, s_num_secs n, s_fs, s_signal, s_n_channels, s_start_break,
                 s_stop_break, s_bads, s_info, s_info_bads, s_raw] k)) = open_handles k"
  by (rule exec_keeps_handles)
     (auto simp: stmt_defs bind_err_def var_def split: sum.splits option.splits)

lemma open_handles_after_run:
  "open_handles (snd (exec (notebook p st n) k)) =
     (if files k p = None then open_handles k else p # open_handles k)"
proof -
  let ?rest = "[s_start st, s_num_secs n, s_fs, s_signal, s_n_channels, s_start_break,
     s_stop_break, s_bads, s_info, s_info_bads, s_raw]"
  have nb: "notebook p st n = [s_filepath p, s_nwb] @ ?rest"
    by (simp add: notebook_def)
  show ?thesis
  proof (cases "files k p")
    case None
    then show ?thesis
      by (simp add: notebook_def s_filepath_def s_nwb_def bind_err_def var_def)
  next
    case (Some f)
    then have step: "exec [s_filepath p, s_nwb] k =
        (None, k\<lparr>v_filepath := Some p, open_handles := p # open_handles k, v_nwb := Some f\<rparr>)"
      by (simp add: s_filepath_def s_nwb_def bind_err_def var_def)
    show ?thesis
      unfolding nb exec_append step
      using Some by (simp add: later_cells_keep_handles del: exec.simps)
  qed
qed

lemma files_example: "files example_kernel example_path = Some example_nwb"
  by (simp add: example_kernel_def fresh_kernel_def)

text \<open>
  C8, as stated, fails: the notebook opens the file and has no statement that closes
  it. After the complete run on the example file the handle is still open, and it is
  still open after the run that the empty epoch table aborts.
\<close>

theorem handle_left_open_counterexample:
  "fst (exec (notebook example_path (PyInt 1) (PyInt 2)) example_kernel) = None
   \<and> open_handles (snd (exec (notebook example_path (PyInt 1) (PyInt 2)) example_kernel)) = [example_path]
   \<and> fst (exec (notebook example_path (PyInt 1) (PyInt 2)) no_epochs_kernel) = Some IndexError
   \<and> open_handles (snd (exec (notebook example_path (PyInt 1) (PyInt 2)) no_epochs_kernel)) = [example_path]"
  by (simp add: exec_outcome run_example run_no_epochs example_pipeline open_handles_after_run
      files_example files_no_epochs)
     (simp add: example_kernel_def no_epochs_kernel_def fresh_kernel_def)

text \<open>
  C8, amended. In every run the pipeline leaves the container handle open: when the
  file exists, the handles open after the run, whether it built the signal object
  or a later stage stopped it, are the handle it opened and those open before; when
  the file does not exist no handle is opened, and those open before stay open.
\<close>

theorem handle_never_closed:
  "open_handles (snd (exec (notebook p st n) k)) =
     (if files k p = None then open_handles k else p # open_handles k)"
  by (rule open_handles_after_run)

end
